theory Spec2Isabelle
  imports Main
begin

section \<open>Python string primitives\<close>

text \<open>
  Texts are Python \<open>str\<close> values over the code points below 256, as HOL strings.
  \<open>isspace\<close> is \<open>str.isspace\<close> on that range, \<open>strip\<close> is \<open>str.strip()\<close>,
  \<open>lower\<close> is \<open>str.lower()\<close>, \<open>split_char\<close> is \<open>str.split\<close> with a separator of
  one character and \<open>split_blank\<close> is \<open>str.split('\n\n')\<close>; \<open>str_nat\<close> is \<open>str\<close> on
  a non-negative \<open>int\<close>.
\<close>

definition isspace :: "char \<Rightarrow> bool" where
  "isspace c = (let n = (of_char c :: nat) in
      (9 \<le> n \<and> n \<le> 13) \<or> (28 \<le> n \<and> n \<le> 32) \<or> n = 133 \<or> n = 160)"

definition strip :: "string \<Rightarrow> string" where
  "strip s = rev (dropWhile isspace (rev (dropWhile isspace s)))"

definition lower_char :: "char \<Rightarrow> char" where
  "lower_char c = (let n = (of_char c :: nat) in
      if (65 \<le> n \<and> n \<le> 90) \<or> (192 \<le> n \<and> n \<le> 222 \<and> n \<noteq> 215)
      then char_of (n + 32) else c)"

definition lower :: "string \<Rightarrow> string" where
  "lower s = map lower_char s"

fun split_char :: "char \<Rightarrow> string \<Rightarrow> string list" where
  "split_char d [] = [[]]"
| "split_char d (c # cs) =
     (if c = d then [] # split_char d cs
      else (case split_char d cs of
              [] \<Rightarrow> [[c]]
            | w # ws \<Rightarrow> (c # w) # ws))"

fun split_blank :: "string \<Rightarrow> string list" where
  "split_blank [] = [[]]"
| "split_blank [c] = [[c]]"
| "split_blank (c # d # cs) =
     (if c = CHR 0x0A \<and> d = CHR 0x0A then [] # split_blank cs
      else (case split_blank (d # cs) of
              [] \<Rightarrow> [[c]]
            | w # ws \<Rightarrow> (c # w) # ws))"

definition digit_char :: "nat \<Rightarrow> char" where
  "digit_char d = ''0123456789'' ! d"

fun str_nat :: "nat \<Rightarrow> string" where
  "str_nat n = (if n < 10 then [digit_char n]
                else str_nat (n div 10) @ [digit_char (n mod 10)])"

declare str_nat.simps [simp del]

text \<open>The expression \<open>x[:n] + "..." if len(x) > n else x\<close>, written inline in the source.\<close>

definition ellipsis :: "nat \<Rightarrow> string \<Rightarrow> string" where
  "ellipsis n x = (if length x > n then take n x @ ''...'' else x)"

text \<open>
  Python's \<open>enumerate(xs)\<close> is \<open>enumerate 0 xs\<close> of the list library; \<open>slice a b xs\<close>
  is \<open>xs[a:b]\<close> for \<open>0 \<le> a \<le> b\<close>.
\<close>

definition slice :: "nat \<Rightarrow> nat \<Rightarrow> 'a list \<Rightarrow> 'a list" where
  "slice a b xs = take (b - a) (drop a xs)"

text \<open>\<open>' '.join(parts)\<close>.\<close>

fun join_space :: "string list \<Rightarrow> string" where
  "join_space [] = []"
| "join_space [p] = p"
| "join_space (p # q # ps) = p @ '' '' @ join_space (q # ps)"

section \<open>Data model\<close>

text \<open>
  The hierarchy is the dictionary the AI backend returns or the fallback builder makes.
  A key read with \<open>d.get(k, default)\<close> is an optional field: \<open>None\<close> is an absent key.
  Values are typed as the hierarchy schema types them.
\<close>

record main_topic =
  mt_title :: "string option"
  mt_description :: "string option"
  mt_complexity_level :: "string option"

record hnode =
  hn_id :: "string option"
  hn_title :: "string option"
  hn_description :: "string option"
  hn_type :: "string option"
  hn_importance :: "string option"
  hn_prerequisites :: "string list option"
  hn_examples :: "string list option"
  hn_applications :: "string list option"

record hlevel =
  hl_level :: "int option"
  hl_title :: "string option"
  hl_nodes :: "hnode list option"

record relationship =
  r_source :: "string option"
  r_target :: "string option"
  r_relationship_type :: "string option"
  r_strength :: "string option"
  r_description :: "string option"

record path_step =
  ps_step :: int
  ps_focus :: string
  ps_description :: string

record difficulty =
  beginner_nodes :: "string list option"
  intermediate_nodes :: "string list option"
  advanced_nodes :: "string list option"

record hierarchy =
  h_error :: "string option"
  h_main_topic :: "main_topic option"
  h_hierarchy_levels :: "hlevel list option"
  h_relationships :: "relationship list option"
  h_learning_path :: "path_step list option"
  h_difficulty_progression :: "difficulty option"

text \<open>
  A structured document (title, executive summary, sections, glossary, takeaways), with
  the keys \<open>extract_text_from_content\<close> reads as well.
\<close>

record doc_section =
  s_section_title :: "string option"
  s_content :: "string option"
  s_key_points :: "string list option"

record document =
  d_title :: "string option"
  d_executive_summary :: "string option"
  d_introduction :: "string option"
  d_main_sections :: "doc_section list option"
  d_conclusion :: "string option"
  d_content :: "string option"
  d_concepts_glossary :: "(string \<times> string) list option"
  d_key_takeaways :: "string list option"

datatype payload = Text string | Structured document

record content_record =
  c_title :: "string option"
  c_content :: payload

datatype pyexn = AttributeError | TypeError | KeyError

section \<open>The fallback hierarchy builder (services/ai_service.py)\<close>

text \<open>Python truthiness of an optional string or list: present and not empty.\<close>

definition truthy :: "'a list option \<Rightarrow> bool" where
  "truthy v = (case v of None \<Rightarrow> False | Some x \<Rightarrow> x \<noteq> [])"

text \<open>
  \<open>_extract_from_structured_content\<close>: the builder calls it on a dictionary only, so its
  branch for a string argument is not reached. \<open>section_parts\<close> is the body of its loop
  over the sections. On a document typed as the schema every part is a string, and the
  final \<open>' '.join\<close> does not raise.
\<close>

definition section_parts :: "doc_section \<Rightarrow> string list" where
  "section_parts sec =
     (if truthy (s_section_title sec) then [the (s_section_title sec)] else []) @
     (if truthy (s_content sec) then [the (s_content sec)] else []) @
     (if truthy (s_key_points sec) then the (s_key_points sec) else [])"

definition extract_from_structured_content :: "document \<Rightarrow> string" where
  "extract_from_structured_content sc =
     join_space (
       (if truthy (d_title sc) then [the (d_title sc)] else []) @
       (if truthy (d_executive_summary sc) then [the (d_executive_summary sc)] else []) @
       (if truthy (d_main_sections sc)
        then concat (map section_parts (the (d_main_sections sc))) else []) @
       (if truthy (d_key_takeaways sc) then the (d_key_takeaways sc) else []))"

definition sentences_of :: "string \<Rightarrow> string list" where
  "sentences_of text_content =
     map strip (filter (\<lambda>s. strip s \<noteq> [] \<and> length (strip s) > 20)
                       (split_char CHR ''.'' text_content))"

definition paragraphs_of :: "string \<Rightarrow> string list" where
  "paragraphs_of text_content =
     map strip (filter (\<lambda>p. strip p \<noteq> []) (split_blank text_content))"

definition main_concepts_of :: "string \<Rightarrow> string list" where
  "main_concepts_of text_content =
     (if length (sentences_of text_content) \<ge> 4
      then take 4 (sentences_of text_content)
      else take 4 (paragraphs_of text_content))"

definition sub_concepts_of :: "string \<Rightarrow> string list" where
  "sub_concepts_of text_content =
     (if length (sentences_of text_content) \<ge> 8
      then slice 4 8 (sentences_of text_content)
      else if length (paragraphs_of text_content) \<ge> 8
      then slice 4 8 (paragraphs_of text_content)
      else [])"

definition level_1_node :: "nat \<times> string \<Rightarrow> hnode" where
  "level_1_node ic = (case ic of (i, concept) \<Rightarrow>
     \<lparr> hn_id = Some (''main_'' @ str_nat i),
       hn_title = Some (ellipsis 60 concept),
       hn_description = Some concept,
       hn_type = Some ''concept'',
       hn_importance = Some (if i < 2 then ''high'' else ''medium''),
       hn_prerequisites = None, hn_examples = None, hn_applications = None \<rparr>)"

definition level_2_node :: "nat \<times> string \<Rightarrow> hnode" where
  "level_2_node ic = (case ic of (i, concept) \<Rightarrow>
     \<lparr> hn_id = Some (''sub_'' @ str_nat i),
       hn_title = Some (ellipsis 50 concept),
       hn_description = Some concept,
       hn_type = Some ''definition'',
       hn_importance = Some ''medium'',
       hn_prerequisites = None, hn_examples = None, hn_applications = None \<rparr>)"

definition fallback_relationship :: "nat \<Rightarrow> relationship" where
  "fallback_relationship i =
     \<lparr> r_source = Some (''main_'' @ str_nat i),
       r_target = Some (''sub_'' @ str_nat i),
       r_relationship_type = Some ''related'',
       r_strength = Some ''medium'',
       r_description = None \<rparr>"

text \<open>The body of the \<open>try\<close> block of \<open>_create_enhanced_fallback_hierarchy\<close>.\<close>

definition fallback_body :: "payload \<Rightarrow> pyexn + hierarchy" where
  "fallback_body content =
    (let text_content = (case content of
                           Structured d \<Rightarrow> extract_from_structured_content d
                         | Text s \<Rightarrow> s);
         main_concepts = main_concepts_of text_content;
         sub_concepts = sub_concepts_of text_content;
         hierarchy_levels =
           (if main_concepts \<noteq> []
            then [\<lparr> hl_level = Some 1, hl_title = Some ''Main Concepts'',
                    hl_nodes = Some (map level_1_node (enumerate 0 main_concepts)) \<rparr>]
            else []) @
           (if sub_concepts \<noteq> []
            then [\<lparr> hl_level = Some 2, hl_title = Some ''Supporting Details'',
                    hl_nodes = Some (map level_2_node (enumerate 0 sub_concepts)) \<rparr>]
            else []);
         relationships =
           (if length hierarchy_levels \<ge> 2
            then map fallback_relationship
                   [0 ..< min (length main_concepts) (length sub_concepts)]
            else [])
     in Inr \<lparr> h_error = None,
              h_main_topic = Some \<lparr> mt_title = Some ''Content Analysis'',
                mt_description = Some ''Structured breakdown of the content'',
                mt_complexity_level = None \<rparr>,
              h_hierarchy_levels = Some hierarchy_levels,
              h_relationships = Some relationships,
              h_learning_path =
                Some (if main_concepts \<noteq> []
                      then [\<lparr> ps_step = 1,
                              ps_focus = (if main_concepts \<noteq> [] then ''main_0''
                                          else ''concept_0''),
                              ps_description = ''Start with the fundamental concepts'' \<rparr>]
                      else []),
              h_difficulty_progression = Some
                \<lparr> beginner_nodes = Some (map (\<lambda>i. ''main_'' @ str_nat i)
                     [0 ..< min 2 (length main_concepts)]),
                  intermediate_nodes = Some (map (\<lambda>i. ''main_'' @ str_nat i)
                     [2 ..< length main_concepts] @
                     map (\<lambda>i. ''sub_'' @ str_nat i) [0 ..< min 2 (length sub_concepts)]),
                  advanced_nodes = Some (map (\<lambda>i. ''sub_'' @ str_nat i)
                     [2 ..< length sub_concepts]) \<rparr> \<rparr>)"

text \<open>The value the \<open>except\<close> branch returns.\<close>

definition minimal_hierarchy :: hierarchy where
  "minimal_hierarchy =
     \<lparr> h_error = None,
       h_main_topic = Some \<lparr> mt_title = Some ''Content'',
         mt_description = Some ''Basic content structure'',
         mt_complexity_level = None \<rparr>,
       h_hierarchy_levels = Some
         [\<lparr> hl_level = Some 1, hl_title = Some ''Main Topic'',
            hl_nodes = Some
              [\<lparr> hn_id = Some ''main_topic'', hn_title = Some ''Main Content'',
                 hn_description = Some ''Primary content area'',
                 hn_type = Some ''concept'', hn_importance = Some ''high'',
                 hn_prerequisites = None, hn_examples = None,
                 hn_applications = None \<rparr>] \<rparr>],
       h_relationships = Some [],
       h_learning_path = Some [],
       h_difficulty_progression = Some
         \<lparr> beginner_nodes = Some [''main_topic''],
           intermediate_nodes = Some [],
           advanced_nodes = Some [] \<rparr> \<rparr>"

text \<open>\<open>try: body  except Exception: return minimal\<close>.\<close>

definition try_fallback :: "pyexn + hierarchy \<Rightarrow> hierarchy" where
  "try_fallback r = (case r of Inr h \<Rightarrow> h | Inl e \<Rightarrow> minimal_hierarchy)"

definition create_enhanced_fallback_hierarchy :: "payload \<Rightarrow> hierarchy" where
  "create_enhanced_fallback_hierarchy content = try_fallback (fallback_body content)"

section \<open>The graph (app.py)\<close>

text \<open>
  Nodes and links are the dictionaries of the output; a key that only some builders set
  is an optional field. The graph's \<open>learning_path\<close>, \<open>difficulty_progression\<close> and
  \<open>metadata\<close> are set by the hierarchy assembly only.
\<close>

record gnode =
  n_id :: string
  n_name :: string
  n_type :: string
  n_level :: int
  n_size :: int
  n_content :: string
  n_complexity :: "string option"
  n_color :: "string option"
  n_importance :: "string option"
  n_prerequisites :: "string list option"
  n_examples :: "string list option"
  n_applications :: "string list option"
  n_children :: "string list option"

record glink =
  l_source :: string
  l_target :: string
  l_value :: int
  l_type :: "string option"
  l_description :: "string option"

record metadata =
  total_levels :: nat
  total_concepts :: nat
  complexity :: string

record graph =
  g_nodes :: "gnode list"
  g_links :: "glink list"
  g_learning_path :: "path_step list option"
  g_difficulty_progression :: "difficulty option"
  g_metadata :: "metadata option"

text \<open>\<open>d.get(k, default)\<close> on an optional field.\<close>

definition get_or :: "'a option \<Rightarrow> 'a \<Rightarrow> 'a" where
  "get_or v dflt = (case v of None \<Rightarrow> dflt | Some x \<Rightarrow> x)"

definition plain_node :: "string \<Rightarrow> string \<Rightarrow> string \<Rightarrow> int \<Rightarrow> int \<Rightarrow> string \<Rightarrow> gnode" where
  "plain_node i nm ty lv sz ct =
     \<lparr> n_id = i, n_name = nm, n_type = ty, n_level = lv, n_size = sz, n_content = ct,
       n_complexity = None, n_color = None, n_importance = None,
       n_prerequisites = None, n_examples = None, n_applications = None,
       n_children = None \<rparr>"

definition plain_link :: "string \<Rightarrow> string \<Rightarrow> int \<Rightarrow> glink" where
  "plain_link s t v =
     \<lparr> l_source = s, l_target = t, l_value = v, l_type = None, l_description = None \<rparr>"

subsection \<open>create_simple_graph_from_text\<close>

definition simple_step :: "gnode list \<times> glink list \<Rightarrow> nat \<times> string \<Rightarrow> gnode list \<times> glink list" where
  "simple_step st ip = (case (st, ip) of ((nodes, links), (i, paragraph)) \<Rightarrow>
     (nodes @ [plain_node (str_nat (i + 1)) (ellipsis 50 paragraph)
                 (if i < 5 then ''sub_topic'' else ''key_point'') 1
                 (if i < 5 then 25 else 20) paragraph],
      links @ [plain_link ''0'' (str_nat (i + 1)) 2]))"

definition create_simple_graph_from_text :: "string \<Rightarrow> string \<Rightarrow> graph" where
  "create_simple_graph_from_text text title =
     (let paragraphs = paragraphs_of text;
          nodes0 = [plain_node ''0'' title ''main_topic'' 0 40 (ellipsis 200 text)];
          (nodes, links) = foldl simple_step (nodes0, []) (enumerate 0 (take 10 paragraphs))
      in \<lparr> g_nodes = nodes, g_links = links, g_learning_path = None,
            g_difficulty_progression = None, g_metadata = None \<rparr>)"

subsection \<open>generate_graph_data: assembling a hierarchy\<close>

record asm =
  a_nodes :: "gnode list"
  a_links :: "glink list"
  a_node_counter :: nat
  a_node_id_map :: "string \<rightharpoonup> string"

definition size_map :: "string \<rightharpoonup> int" where
  "size_map = [''high'' \<mapsto> 35, ''medium'' \<mapsto> 28, ''low'' \<mapsto> 22]"

definition type_colors :: "string \<rightharpoonup> string" where
  "type_colors = [''concept'' \<mapsto> ''#3b82f6'', ''definition'' \<mapsto> ''#10b981'',
                  ''principle'' \<mapsto> ''#f59e0b'', ''example'' \<mapsto> ''#ef4444'',
                  ''application'' \<mapsto> ''#8b5cf6'']"

definition level_colors :: "int \<rightharpoonup> string" where
  "level_colors = [1 \<mapsto> ''#3b82f6'', 2 \<mapsto> ''#10b981'', 3 \<mapsto> ''#f59e0b'',
                   4 \<mapsto> ''#ef4444'', 5 \<mapsto> ''#8b5cf6'']"

definition strength_values :: "string \<rightharpoonup> int" where
  "strength_values = [''strong'' \<mapsto> 3, ''medium'' \<mapsto> 2, ''weak'' \<mapsto> 1]"

definition no_main_topic :: main_topic where
  "no_main_topic = \<lparr> mt_title = None, mt_description = None, mt_complexity_level = None \<rparr>"

definition main_node :: "main_topic \<Rightarrow> content_record \<Rightarrow> gnode" where
  "main_node mt content =
     \<lparr> n_id = str_nat 0,
       n_name = get_or (mt_title mt) (get_or (c_title content) ''Main Topic''),
       n_type = ''main_topic'',
       n_level = 0,
       n_size = 50,
       n_content = get_or (mt_description mt) ''Central concept'',
       n_complexity = Some (get_or (mt_complexity_level mt) ''intermediate''),
       n_color = Some ''#1e3a8a'',
       n_importance = None, n_prerequisites = None, n_examples = None,
       n_applications = None, n_children = None \<rparr>"

definition concept_node :: "int \<Rightarrow> nat \<Rightarrow> hnode \<Rightarrow> gnode" where
  "concept_node level_num node_counter node_data =
     (let node_title = get_or (hn_title node_data) (''Node '' @ str_nat node_counter);
          importance = get_or (hn_importance node_data) ''medium'';
          node_type = get_or (hn_type node_data) ''concept''
      in \<lparr> n_id = str_nat node_counter,
            n_name = node_title,
            n_type = node_type,
            n_level = level_num,
            n_size = get_or (size_map importance) 28,
            n_content = get_or (hn_description node_data) [],
            n_complexity = None,
            n_color = Some (get_or (type_colors node_type)
                              (get_or (level_colors level_num) ''#6b7280'')),
            n_importance = Some importance,
            n_prerequisites = Some (get_or (hn_prerequisites node_data) []),
            n_examples = Some (get_or (hn_examples node_data) []),
            n_applications = Some (get_or (hn_applications node_data) []),
            n_children = None \<rparr>)"

text \<open>The key under which a node enters \<open>node_id_map\<close>: its id, or its lowered title.\<close>

definition node_key :: "nat \<Rightarrow> hnode \<Rightarrow> string" where
  "node_key node_counter node_data =
     get_or (hn_id node_data)
       (lower (get_or (hn_title node_data) (''Node '' @ str_nat node_counter)))"

definition hierarchy_link :: "string \<Rightarrow> glink" where
  "hierarchy_link node_id =
     \<lparr> l_source = ''0'', l_target = node_id, l_value = 3,
       l_type = Some ''hierarchy'', l_description = None \<rparr>"

definition process_node :: "int \<Rightarrow> asm \<Rightarrow> hnode \<Rightarrow> asm" where
  "process_node level_num st node_data =
     (let node_id = str_nat (a_node_counter st)
      in \<lparr> a_nodes = a_nodes st @ [concept_node level_num (a_node_counter st) node_data],
            a_links = (if level_num = 1 then a_links st @ [hierarchy_link node_id]
                       else a_links st),
            a_node_counter = a_node_counter st + 1,
            a_node_id_map =
              (a_node_id_map st)(node_key (a_node_counter st) node_data \<mapsto> node_id) \<rparr>)"

definition process_level :: "asm \<Rightarrow> hlevel \<Rightarrow> asm" where
  "process_level st level_data =
     foldl (process_node (get_or (hl_level level_data) 1)) st
           (get_or (hl_nodes level_data) [])"

definition relationship_link :: "string \<Rightarrow> string \<Rightarrow> relationship \<Rightarrow> glink" where
  "relationship_link source_id target_id rel =
     \<lparr> l_source = source_id, l_target = target_id,
       l_value = get_or (strength_values (get_or (r_strength rel) ''medium'')) 2,
       l_type = Some (get_or (r_relationship_type rel) ''related''),
       l_description = Some (get_or (r_description rel) []) \<rparr>"

definition process_relationship :: "asm \<Rightarrow> relationship \<Rightarrow> asm" where
  "process_relationship st rel =
     (case (a_node_id_map st (get_or (r_source rel) []),
            a_node_id_map st (get_or (r_target rel) [])) of
        (Some source_id, Some target_id) \<Rightarrow>
          (if source_id \<noteq> [] \<and> target_id \<noteq> [] \<and> source_id \<noteq> target_id
           then st\<lparr> a_links := a_links st @ [relationship_link source_id target_id rel] \<rparr>
           else st)
      | _ \<Rightarrow> st)"

definition basic_nodes :: "gnode list" where
  "basic_nodes =
     [(plain_node ''1'' ''Key Concept 1'' ''concept'' 1 30
         ''Primary concept from the content'')\<lparr> n_color := Some ''#3b82f6'' \<rparr>,
      (plain_node ''2'' ''Key Concept 2'' ''definition'' 1 28
         ''Secondary concept from the content'')\<lparr> n_color := Some ''#10b981'' \<rparr>]"

definition basic_links :: "glink list" where
  "basic_links =
     [(plain_link ''0'' ''1'' 3)\<lparr> l_type := Some ''hierarchy'' \<rparr>,
      (plain_link ''0'' ''2'' 3)\<lparr> l_type := Some ''hierarchy'' \<rparr>,
      (plain_link ''1'' ''2'' 2)\<lparr> l_type := Some ''related'' \<rparr>]"

text \<open>The state after the main topic node, after the levels, and after the relationships.\<close>

definition asm_init :: "hierarchy \<Rightarrow> content_record \<Rightarrow> asm" where
  "asm_init hierarchy_data content =
     \<lparr> a_nodes = [main_node (get_or (h_main_topic hierarchy_data) no_main_topic) content],
       a_links = [],
       a_node_counter = 1,
       a_node_id_map = [''main'' \<mapsto> ''0''] \<rparr>"

definition asm_levels :: "hierarchy \<Rightarrow> content_record \<Rightarrow> asm" where
  "asm_levels hierarchy_data content =
     foldl process_level (asm_init hierarchy_data content)
           (get_or (h_hierarchy_levels hierarchy_data) [])"

definition asm_relationships :: "hierarchy \<Rightarrow> content_record \<Rightarrow> asm" where
  "asm_relationships hierarchy_data content =
     foldl process_relationship (asm_levels hierarchy_data content)
           (get_or (h_relationships hierarchy_data) [])"

definition assemble :: "hierarchy \<Rightarrow> content_record \<Rightarrow> graph" where
  "assemble hierarchy_data content =
     (let st = asm_relationships hierarchy_data content;
          nodes = (if length (a_nodes st) = 1 then a_nodes st @ basic_nodes else a_nodes st);
          links = (if length (a_nodes st) = 1 then a_links st @ basic_links else a_links st)
      in \<lparr> g_nodes = nodes,
            g_links = links,
            g_learning_path = Some (get_or (h_learning_path hierarchy_data) []),
            g_difficulty_progression =
              Some (get_or (h_difficulty_progression hierarchy_data)
                      \<lparr> beginner_nodes = None, intermediate_nodes = None,
                        advanced_nodes = None \<rparr>),
            g_metadata = Some
              \<lparr> total_levels = length (get_or (h_hierarchy_levels hierarchy_data) []),
                total_concepts = length nodes,
                complexity = get_or (mt_complexity_level
                    (get_or (h_main_topic hierarchy_data) no_main_topic)) ''intermediate'' \<rparr> \<rparr>)"

subsection \<open>generate_legacy_graph_data: a structured document\<close>

text \<open>
  \<open>json.loads\<close> is a parameter \<open>loads\<close> of the pipeline: it fails, or gives a JSON value
  that is no object, or gives a document. \<open>str\<close> of a dictionary is the parameter
  \<open>py_str\<close>.
\<close>

datatype json_parse = JSONDecodeError | NonObject | Object document

record legacy =
  lg_nodes :: "gnode list"
  lg_links :: "glink list"
  lg_node_id :: nat

text \<open>
  A key point of a section: its node, its link to the section, and its text appended to
  the \<open>children\<close> of the section's node, which sits at position \<open>pos\<close> of \<open>nodes\<close>.
\<close>

definition key_point_step :: "nat \<Rightarrow> nat \<Rightarrow> legacy \<Rightarrow> string \<Rightarrow> legacy" where
  "key_point_step section_id pos st point =
     (let nodes = lg_nodes st @ [plain_node (str_nat (lg_node_id st)) (ellipsis 30 point)
                                   ''key_point'' 2 20 point];
          section_node = nodes ! pos
      in \<lparr> lg_nodes = nodes[pos := section_node\<lparr> n_children :=
                           Some (get_or (n_children section_node) [] @ [point]) \<rparr>],
            lg_links = lg_links st @ [plain_link (str_nat section_id) (str_nat (lg_node_id st)) 2],
            lg_node_id = lg_node_id st + 1 \<rparr>)"

definition section_step :: "legacy \<Rightarrow> nat \<times> doc_section \<Rightarrow> legacy" where
  "section_step st isec = (case isec of (i, sec) \<Rightarrow>
     (let section_node = (plain_node (str_nat (lg_node_id st))
                            (get_or (s_section_title sec) (''Section '' @ str_nat (i + 1)))
                            ''sub_topic'' 1 30
                            (ellipsis 200 (get_or (s_content sec) [])))
                         \<lparr> n_children := Some [] \<rparr>;
          pos = length (lg_nodes st);
          section_id = lg_node_id st;
          st1 = \<lparr> lg_nodes = lg_nodes st @ [section_node],
                  lg_links = lg_links st @ [plain_link ''0'' (str_nat (lg_node_id st)) 3],
                  lg_node_id = lg_node_id st + 1 \<rparr>
      in if truthy (s_key_points sec)
         then foldl (key_point_step section_id pos) st1 (the (s_key_points sec))
         else st1))"

text \<open>A child of the "Key Concepts" or "Key Takeaways" node.\<close>

definition child_step :: "nat \<Rightarrow> string \<Rightarrow> int \<Rightarrow> legacy \<Rightarrow> string \<times> string \<Rightarrow> legacy" where
  "child_step parent_id ty sz st nc = (case nc of (nm, ct) \<Rightarrow>
     \<lparr> lg_nodes = lg_nodes st @ [plain_node (str_nat (lg_node_id st)) nm ty 2 sz ct],
       lg_links = lg_links st @ [plain_link (str_nat parent_id) (str_nat (lg_node_id st)) 2],
       lg_node_id = lg_node_id st + 1 \<rparr>)"

definition group_step :: "string \<Rightarrow> string \<Rightarrow> legacy \<Rightarrow> legacy" where
  "group_step nm ct st =
     \<lparr> lg_nodes = lg_nodes st @ [plain_node (str_nat (lg_node_id st)) nm ''sub_topic'' 1 30 ct],
       lg_links = lg_links st @ [plain_link ''0'' (str_nat (lg_node_id st)) 3],
       lg_node_id = lg_node_id st + 1 \<rparr>"

definition legacy_sections :: "document \<Rightarrow> legacy \<Rightarrow> legacy" where
  "legacy_sections structured_data st =
     (if truthy (d_main_sections structured_data)
      then foldl section_step st (enumerate 0 (the (d_main_sections structured_data)))
      else st)"

definition legacy_glossary :: "document \<Rightarrow> legacy \<Rightarrow> legacy" where
  "legacy_glossary structured_data st =
     (if truthy (d_concepts_glossary structured_data)
      then foldl (child_step (lg_node_id st) ''concept'' 25)
             (group_step ''Key Concepts'' ''Important concepts and definitions'' st)
             (the (d_concepts_glossary structured_data))
      else st)"

definition legacy_takeaways :: "document \<Rightarrow> legacy \<Rightarrow> legacy" where
  "legacy_takeaways structured_data st =
     (if truthy (d_key_takeaways structured_data)
      then foldl (child_step (lg_node_id st) ''key_point'' 20)
             (group_step ''Key Takeaways'' ''Main lessons and insights'' st)
             (map (\<lambda>takeaway. (ellipsis 30 takeaway, takeaway))
                  (the (d_key_takeaways structured_data)))
      else st)"

definition legacy_build :: "document \<Rightarrow> content_record \<Rightarrow> graph" where
  "legacy_build structured_data content =
     (let st0 = \<lparr> lg_nodes = [plain_node (str_nat 0)
                     (get_or (d_title structured_data) (get_or (c_title content) ''Content''))
                     ''main_topic'' 0 40
                     (get_or (d_executive_summary structured_data) ''Main content'')],
                  lg_links = [], lg_node_id = 1 \<rparr>;
          st = legacy_takeaways structured_data
                 (legacy_glossary structured_data
                    (legacy_sections structured_data st0))
      in \<lparr> g_nodes = lg_nodes st, g_links = lg_links st, g_learning_path = None,
            g_difficulty_progression = None, g_metadata = None \<rparr>)"

definition extract_text_from_content ::
    "(string \<Rightarrow> json_parse) \<Rightarrow> (document \<Rightarrow> string) \<Rightarrow> payload \<Rightarrow> string" where
  "extract_text_from_content loads py_str content_data =
     (case content_data of
        Text s \<Rightarrow>
          (case loads s of
             Object parsed_content \<Rightarrow>
               (let text_parts =
                      (case d_executive_summary parsed_content of None \<Rightarrow> [] | Some x \<Rightarrow> [x]) @
                      (case d_introduction parsed_content of None \<Rightarrow> [] | Some x \<Rightarrow> [x]) @
                      (case d_main_sections parsed_content of None \<Rightarrow> []
                       | Some secs \<Rightarrow> concat (map (\<lambda>sec. case s_content sec of
                                                      None \<Rightarrow> [] | Some x \<Rightarrow> [x]) secs)) @
                      (case d_conclusion parsed_content of None \<Rightarrow> [] | Some x \<Rightarrow> [x])
                in if text_parts \<noteq> [] then join_space text_parts
                   else (case d_content parsed_content of Some x \<Rightarrow> x | None \<Rightarrow> s))
           | NonObject \<Rightarrow> s
           | JSONDecodeError \<Rightarrow> s)
      | Structured d \<Rightarrow> py_str d)"

text \<open>
  The \<open>try\<close> block of \<open>generate_legacy_graph_data\<close>: on a JSON value that is no object,
  \<open>structured_data.get\<close> raises.
\<close>

definition legacy_body :: "(string \<Rightarrow> json_parse) \<Rightarrow> content_record \<Rightarrow> pyexn + graph" where
  "legacy_body loads content =
     (case c_content content of
        Text s \<Rightarrow>
          (case loads s of
             JSONDecodeError \<Rightarrow>
               Inr (create_simple_graph_from_text s (get_or (c_title content) ''Content''))
           | NonObject \<Rightarrow> Inl AttributeError
           | Object structured_data \<Rightarrow> Inr (legacy_build structured_data content))
      | Structured structured_data \<Rightarrow> Inr (legacy_build structured_data content))"

definition generate_legacy_graph_data ::
    "(string \<Rightarrow> json_parse) \<Rightarrow> (document \<Rightarrow> string) \<Rightarrow> content_record \<Rightarrow> graph" where
  "generate_legacy_graph_data loads py_str content =
     (case legacy_body loads content of
        Inr g \<Rightarrow> g
      | Inl e \<Rightarrow> create_simple_graph_from_text
                   (extract_text_from_content loads py_str (c_content content))
                   (get_or (c_title content) ''Content''))"

subsection \<open>The pipeline\<close>

text \<open>
  The AI backend is a parameter: \<open>None\<close> when \<open>self.model\<close> is not set, else its reply
  to the prompt. The reply is an exception of the call (or a JSON value that is no
  object, on which \<open>.get\<close> raises), a text that is no JSON, a dictionary typed as the
  hierarchy schema, or a dictionary with \<open>hierarchy_levels\<close> that is not typed as the
  schema and on which the assembly raises.
\<close>

datatype ai_reply = BackendError | MalformedResponse | Parsed hierarchy | IllTyped

datatype hierarchy_data = Dict hierarchy | IllTypedDict

definition generate_hierarchical_graph_structure ::
    "ai_reply option \<Rightarrow> payload \<Rightarrow> hierarchy_data" where
  "generate_hierarchical_graph_structure model content =
     (case model of
        None \<Rightarrow> Dict (create_enhanced_fallback_hierarchy content)
      | Some BackendError \<Rightarrow> Dict (create_enhanced_fallback_hierarchy content)
      | Some MalformedResponse \<Rightarrow> Dict (create_enhanced_fallback_hierarchy content)
      | Some (Parsed h) \<Rightarrow>
          (if \<not> truthy (h_hierarchy_levels h)
           then Dict (create_enhanced_fallback_hierarchy content)
           else Dict h)
      | Some IllTyped \<Rightarrow> IllTypedDict)"

definition graph_body :: "ai_reply option \<Rightarrow> (string \<Rightarrow> json_parse) \<Rightarrow>
    (document \<Rightarrow> string) \<Rightarrow> content_record \<Rightarrow> pyexn + graph" where
  "graph_body model loads py_str content =
     (case generate_hierarchical_graph_structure model (c_content content) of
        IllTypedDict \<Rightarrow> Inl TypeError
      | Dict h \<Rightarrow>
          (if h_error h \<noteq> None
           then Inr (generate_legacy_graph_data loads py_str content)
           else Inr (assemble h content)))"

definition generate_graph_data :: "ai_reply option \<Rightarrow> (string \<Rightarrow> json_parse) \<Rightarrow>
    (document \<Rightarrow> string) \<Rightarrow> content_record \<Rightarrow> graph" where
  "generate_graph_data model loads py_str content =
     (case graph_body model loads py_str content of
        Inr g \<Rightarrow> g
      | Inl e \<Rightarrow> generate_legacy_graph_data loads py_str content)"

section \<open>Predicates on graphs\<close>

text \<open>
  \<open>links_closed\<close>: every link's source and target are ids of nodes of the graph.
  \<open>numbered c s\<close>: \<open>s\<close> is \<open>str(i)\<close> for a counter value \<open>i\<close> below \<open>c\<close>; the
  invariants of the three builders say that the ids of the nodes are \<open>str(0)\<close>,
  \<open>str(1)\<close>, ... in this order and that links join such ids.
\<close>

definition node_ids :: "graph \<Rightarrow> string list" where
  "node_ids g = map n_id (g_nodes g)"

definition links_closed :: "graph \<Rightarrow> bool" where
  "links_closed g = (\<forall>l \<in> set (g_links g).
      l_source l \<in> set (node_ids g) \<and> l_target l \<in> set (node_ids g))"

definition numbered :: "nat \<Rightarrow> string \<Rightarrow> bool" where
  "numbered c s = (\<exists>i < c. s = str_nat i)"

definition links_numbered :: "nat \<Rightarrow> glink list \<Rightarrow> bool" where
  "links_numbered c links = (\<forall>l \<in> set links. numbered c (l_source l) \<and> numbered c (l_target l))"

definition asm_inv :: "asm \<Rightarrow> bool" where
  "asm_inv st = (map n_id (a_nodes st) = map str_nat [0 ..< a_node_counter st]
      \<and> 0 < a_node_counter st \<and> a_nodes st \<noteq> [] \<and> n_level (hd (a_nodes st)) = 0
      \<and> links_numbered (a_node_counter st) (a_links st)
      \<and> (\<forall>k v. a_node_id_map st k = Some v \<longrightarrow> numbered (a_node_counter st) v))"

definition graph_wf :: "graph \<Rightarrow> bool" where
  "graph_wf g = (g_nodes g \<noteq> [] \<and> n_level (hd (g_nodes g)) = 0
      \<and> map n_id (g_nodes g) = map str_nat [0 ..< length (g_nodes g)]
      \<and> links_numbered (length (g_nodes g)) (g_links g))"

definition legacy_inv :: "legacy \<Rightarrow> bool" where
  "legacy_inv st = (map n_id (lg_nodes st) = map str_nat [0 ..< lg_node_id st]
      \<and> 0 < lg_node_id st \<and> lg_nodes st \<noteq> [] \<and> n_level (hd (lg_nodes st)) = 0
      \<and> links_numbered (lg_node_id st) (lg_links st))"

section \<open>Example inputs\<close>

text \<open>
  A hierarchy with one level of two nodes and four relationships (one dangling, one from
  the key \<open>main\<close>, one self-loop), and a content record of plain text.
\<close>

definition photosynthesis :: hierarchy where
  "photosynthesis =
     \<lparr> h_error = None,
       h_main_topic = Some \<lparr> mt_title = Some ''Photosynthesis'', mt_description = None,
                              mt_complexity_level = None \<rparr>,
       h_hierarchy_levels = Some
         [\<lparr> hl_level = Some 1, hl_title = Some ''Key Concepts'',
            hl_nodes = Some
              [\<lparr> hn_id = Some ''a'', hn_title = Some ''Light'', hn_description = None,
                 hn_type = Some ''concept'', hn_importance = Some ''high'',
                 hn_prerequisites = None, hn_examples = None, hn_applications = None \<rparr>,
               \<lparr> hn_id = Some ''b'', hn_title = Some ''Dark'', hn_description = None,
                 hn_type = Some ''concept'', hn_importance = Some ''low'',
                 hn_prerequisites = None, hn_examples = None, hn_applications = None \<rparr>] \<rparr>],
       h_relationships = Some
         [\<lparr> r_source = Some ''a'', r_target = Some ''b'',
            r_relationship_type = Some ''causes'', r_strength = Some ''strong'',
            r_description = None \<rparr>,
          \<lparr> r_source = Some ''a'', r_target = Some ''ghost'',
            r_relationship_type = Some ''related'', r_strength = Some ''weak'',
            r_description = None \<rparr>,
          \<lparr> r_source = Some ''main'', r_target = Some ''b'',
            r_relationship_type = Some ''contains'', r_strength = None,
            r_description = None \<rparr>,
          \<lparr> r_source = Some ''b'', r_target = Some ''b'',
            r_relationship_type = Some ''related'', r_strength = Some ''weak'',
            r_description = None \<rparr>],
       h_learning_path = None,
       h_difficulty_progression = None \<rparr>"

definition untitled :: content_record where
  "untitled = \<lparr> c_title = None, c_content = Text ''A. B. C.'' \<rparr>"

section \<open>The nodes of a hierarchy, in the order of the assembly\<close>

text \<open>
  \<open>hierarchy_nodes\<close> lists the nodes of all levels with the level number of each, in the
  order in which the two nested loops of the assembly visit them; \<open>process_pair\<close> is
  the loop body on such a pair. \<open>emitted m rel\<close> is what the relationship loop appends
  for one relationship under the id map \<open>m\<close>. \<open>text_of\<close> is the text the fallback
  builder segments.
\<close>

definition level_nodes :: "hlevel \<Rightarrow> (int \<times> hnode) list" where
  "level_nodes level_data =
     map (Pair (get_or (hl_level level_data) 1)) (get_or (hl_nodes level_data) [])"

definition hierarchy_nodes :: "hierarchy \<Rightarrow> (int \<times> hnode) list" where
  "hierarchy_nodes hierarchy_data =
     concat (map level_nodes (get_or (h_hierarchy_levels hierarchy_data) []))"

definition process_pair :: "asm \<Rightarrow> int \<times> hnode \<Rightarrow> asm" where
  "process_pair st p = process_node (fst p) st (snd p)"

definition emitted :: "(string \<rightharpoonup> string) \<Rightarrow> relationship \<Rightarrow> glink list" where
  "emitted m rel =
     (case (m (get_or (r_source rel) []), m (get_or (r_target rel) [])) of
        (Some source_id, Some target_id) \<Rightarrow>
          (if source_id \<noteq> [] \<and> target_id \<noteq> [] \<and> source_id \<noteq> target_id
           then [relationship_link source_id target_id rel] else [])
      | _ \<Rightarrow> [])"

definition text_of :: "payload \<Rightarrow> string" where
  "text_of content = (case content of Structured d \<Rightarrow> extract_from_structured_content d
                      | Text s \<Rightarrow> s)"

text \<open>
  A reply of the backend with an empty list of levels, a \<open>json.loads\<close> that always
  fails and a \<open>str\<close> of documents (not reached on these inputs), a paragraph of 200
  characters, a text of eight long sentences and a short one, and a hierarchy of three
  levels (1, 2 and 7) with one relationship from the key \<open>main\<close>.
\<close>

definition empty_levels_reply :: hierarchy where
  "empty_levels_reply =
     \<lparr> h_error = None, h_main_topic = None, h_hierarchy_levels = Some [],
       h_relationships = None, h_learning_path = None, h_difficulty_progression = None \<rparr>"

definition no_json :: "string \<Rightarrow> json_parse" where
  "no_json s = JSONDecodeError"

definition no_str :: "document \<Rightarrow> string" where
  "no_str d = []"

definition long_text :: string where
  "long_text = replicate 200 (CHR ''x'')"

definition eight_sentences :: string where
  "eight_sentences =
     ''Sentence number one is here. Sentence number two is here. '' @
     ''Sentence number three is here. Sentence number four is here. '' @
     ''Sentence number five is here. Sentence number six is here. '' @
     ''Sentence number seven is here. Sentence number eight is here. Short.''"

definition layered :: hierarchy where
  "layered =
     \<lparr> h_error = None,
       h_main_topic = None,
       h_hierarchy_levels = Some
         [\<lparr> hl_level = Some 1, hl_title = None,
            hl_nodes = Some
              [\<lparr> hn_id = Some ''a'', hn_title = Some ''Alpha'', hn_description = None,
                 hn_type = Some ''principle'', hn_importance = Some ''high'',
                 hn_prerequisites = None, hn_examples = None, hn_applications = None \<rparr>] \<rparr>,
          \<lparr> hl_level = Some 2, hl_title = None,
            hl_nodes = Some
              [\<lparr> hn_id = Some ''b'', hn_title = Some ''Beta'', hn_description = None,
                 hn_type = Some ''theorem'', hn_importance = Some ''low'',
                 hn_prerequisites = None, hn_examples = None, hn_applications = None \<rparr>] \<rparr>,
          \<lparr> hl_level = Some 7, hl_title = None,
            hl_nodes = Some
              [\<lparr> hn_id = None, hn_title = Some ''Gamma'', hn_description = None,
                 hn_type = Some ''theorem'', hn_importance = None,
                 hn_prerequisites = None, hn_examples = None, hn_applications = None \<rparr>] \<rparr>],
       h_relationships = Some
         [\<lparr> r_source = Some ''main'', r_target = Some ''b'',
            r_relationship_type = Some ''contains'', r_strength = Some ''weak'',
            r_description = None \<rparr>],
       h_learning_path = None,
       h_difficulty_progression = None \<rparr>"

section \<open>Node ids and links of the three builders\<close>

lemma str_nat_0: "str_nat 0 = ''0''" by (simp add: str_nat.simps digit_char_def)
lemma str_nat_1: "str_nat 1 = ''1''" by (simp add: str_nat.simps digit_char_def)
lemma str_nat_2: "str_nat 2 = ''2''" by (simp add: str_nat.simps digit_char_def)
lemma str_nat_Suc0: "str_nat (Suc 0) = ''1''" by (simp add: str_nat.simps digit_char_def)

lemma str_nat_nonempty: "str_nat n \<noteq> []"
  by (subst str_nat.simps) simp

lemma digit_char_0: "d < 10 \<Longrightarrow> digit_char d = CHR ''0'' \<longleftrightarrow> d = 0"
proof -
  assume "d < 10"
  then have "d = 0 \<or> d = 1 \<or> d = 2 \<or> d = 3 \<or> d = 4 \<or> d = 5 \<or> d = 6 \<or> d = 7 \<or> d = 8 \<or> d = 9"
    by arith
  then show ?thesis by (elim disjE) (simp_all add: digit_char_def)
qed

lemma str_nat_eq_0: "str_nat n = ''0'' \<longleftrightarrow> n = 0"
proof (cases "n < 10")
  case True
  then show ?thesis by (subst str_nat.simps) (simp add: digit_char_0)
next
  case False
  have "str_nat (n div 10) \<noteq> []" by (rule str_nat_nonempty)
  with False show ?thesis by (subst str_nat.simps) auto
qed

lemma foldl_invariant:
  assumes "P s" and "\<And>s x. P s \<Longrightarrow> x \<in> set xs \<Longrightarrow> P (f s x)"
  shows "P (foldl f s xs)"
  using assms by (induction xs arbitrary: s) simp_all

lemma numbered_mono: "numbered c s \<Longrightarrow> c \<le> d \<Longrightarrow> numbered d s"
  unfolding numbered_def using less_le_trans by blast

lemma numbered_Suc: "numbered c s \<Longrightarrow> numbered (Suc c) s"
  by (erule numbered_mono) simp

lemma numbered_0: "0 < c \<Longrightarrow> numbered c (str_nat 0)"
  by (auto simp: numbered_def)

lemma links_numbered_Suc: "links_numbered c ls \<Longrightarrow> links_numbered (Suc c) ls"
  by (auto simp: links_numbered_def intro: numbered_Suc)

lemma numbered_self: "numbered (Suc c) (str_nat c)"
  by (auto simp: numbered_def)

lemma links_numbered_mono: "links_numbered c ls \<Longrightarrow> c \<le> d \<Longrightarrow> links_numbered d ls"
  by (auto simp: links_numbered_def intro: numbered_mono)

lemma links_numbered_snoc:
  "links_numbered c (ls @ [l]) \<longleftrightarrow>
     links_numbered c ls \<and> numbered c (l_source l) \<and> numbered c (l_target l)"
  by (auto simp: links_numbered_def)

lemma numbered_in_ids: "numbered c s \<longleftrightarrow> s \<in> set (map str_nat [0 ..< c])"
  by (auto simp: numbered_def)

lemma asm_inv_init: "asm_inv (asm_init h c)"
  by (auto simp: asm_inv_def asm_init_def main_node_def links_numbered_def numbered_def
      str_nat_0 split: if_splits)

lemma asm_inv_process_node: "asm_inv st \<Longrightarrow> asm_inv (process_node lv st nd)"
  unfolding asm_inv_def process_node_def Let_def
  by (auto simp: concept_node_def Let_def links_numbered_snoc hierarchy_link_def
      numbered_self str_nat_0 [symmetric] numbered_0
      intro: numbered_Suc links_numbered_Suc
      split: if_splits)

lemma asm_inv_process_level: "asm_inv st \<Longrightarrow> asm_inv (process_level st l)"
  unfolding process_level_def by (rule foldl_invariant) (auto intro: asm_inv_process_node)

lemma asm_inv_levels: "asm_inv (asm_levels h c)"
  unfolding asm_levels_def
  by (rule foldl_invariant) (auto intro: asm_inv_process_level asm_inv_init)

lemma asm_inv_process_relationship: "asm_inv st \<Longrightarrow> asm_inv (process_relationship st r)"
  unfolding asm_inv_def process_relationship_def
  by (auto simp: links_numbered_snoc relationship_link_def split: option.splits)

lemma asm_inv_relationships: "asm_inv (asm_relationships h c)"
  unfolding asm_relationships_def
  by (rule foldl_invariant) (auto intro: asm_inv_process_relationship asm_inv_levels)


lemma asm_inv_length: "asm_inv st \<Longrightarrow> length (a_nodes st) = a_node_counter st"
proof -
  assume "asm_inv st"
  then have "length (map n_id (a_nodes st)) = length (map str_nat [0 ..< a_node_counter st])"
    by (simp add: asm_inv_def)
  then show ?thesis by simp
qed

lemma assemble_nodes:
  "g_nodes (assemble h c) =
     (if length (a_nodes (asm_relationships h c)) = 1
      then a_nodes (asm_relationships h c) @ basic_nodes
      else a_nodes (asm_relationships h c))"
  by (simp add: assemble_def Let_def)

lemma assemble_links:
  "g_links (assemble h c) =
     (if length (a_nodes (asm_relationships h c)) = 1
      then a_links (asm_relationships h c) @ basic_links
      else a_links (asm_relationships h c))"
  by (simp add: assemble_def Let_def)

lemma links_numbered_append:
  "links_numbered c (xs @ ys) \<longleftrightarrow> links_numbered c xs \<and> links_numbered c ys"
  by (auto simp: links_numbered_def)

lemma basic_links_numbered: "links_numbered 3 basic_links"
proof -
  have n0: "numbered 3 ''0''" unfolding numbered_def
    by (rule exI [of _ 0]) (simp add: str_nat_0)
  have n1: "numbered 3 ''1''" unfolding numbered_def
    by (rule exI [of _ 1]) (simp add: str_nat_Suc0)
  have n2: "numbered 3 ''2''" unfolding numbered_def
    by (rule exI [of _ 2]) (simp add: str_nat_2)
  show ?thesis
    by (simp add: links_numbered_def basic_links_def plain_link_def n0 n1 n2)
qed

lemma basic_nodes_ids: "map n_id basic_nodes = [str_nat 1, str_nat 2]"
  by (simp add: basic_nodes_def plain_node_def str_nat_Suc0 str_nat_2)

lemma upt_0_3: "[0 ..< 3] = [0, 1, 2::nat]"
  by (simp add: upt_rec)

lemma assemble_wf: "graph_wf (assemble h c)"
proof -
  let ?st = "asm_relationships h c"
  have inv: "asm_inv ?st" by (rule asm_inv_relationships)
  have len: "length (a_nodes ?st) = a_node_counter ?st" using inv by (rule asm_inv_length)
  show ?thesis
  proof (cases "length (a_nodes ?st) = 1")
    case True
    then have c1: "a_node_counter ?st = 1" using len by simp
    have gn: "g_nodes (assemble h c) = a_nodes ?st @ basic_nodes"
      using True by (simp add: assemble_nodes)
    have gl: "g_links (assemble h c) = a_links ?st @ basic_links"
      using True by (simp add: assemble_links)
    have l3: "length (a_nodes ?st @ basic_nodes) = 3"
      using True by (simp add: basic_nodes_def)
    have f1: "a_nodes ?st @ basic_nodes \<noteq> []" using inv by (simp add: asm_inv_def)
    have f2: "n_level (hd (a_nodes ?st @ basic_nodes)) = 0"
      using inv by (simp add: asm_inv_def)
    have "map n_id (a_nodes ?st) = [str_nat 0]"
      using inv c1 by (simp add: asm_inv_def)
    then have f3: "map n_id (a_nodes ?st @ basic_nodes) = map str_nat [0 ..< 3]"
      by (simp add: basic_nodes_ids upt_0_3)
    have "links_numbered 3 (a_links ?st)"
      using inv c1 by (auto simp: asm_inv_def intro: links_numbered_mono)
    then have f4: "links_numbered 3 (a_links ?st @ basic_links)"
      by (simp add: links_numbered_append basic_links_numbered)
    show ?thesis
      unfolding graph_wf_def gn gl l3 using f1 f2 f3 f4 by blast
  next
    case False
    have gn: "g_nodes (assemble h c) = a_nodes ?st"
      using False by (simp add: assemble_nodes)
    have gl: "g_links (assemble h c) = a_links ?st"
      using False by (simp add: assemble_links)
    show ?thesis
      unfolding graph_wf_def gn gl len using inv by (simp add: asm_inv_def)
  qed
qed

lemma ids_update: "map n_id (xs[i := (xs ! i)\<lparr>n_children := c\<rparr>]) = map n_id xs"
proof -
  have "map n_id (xs[i := (xs ! i)\<lparr>n_children := c\<rparr>]) = (map n_id xs)[i := n_id (xs ! i)]"
    by (simp add: map_update)
  also have "\<dots> = map n_id xs"
    by (cases "i < length xs") (simp_all add: list_update_same_conv list_update_beyond)
  finally show ?thesis .
qed

lemma level_update: "n_level (hd (xs[i := (xs ! i)\<lparr>n_children := c\<rparr>])) = n_level (hd xs)"
  by (cases xs; cases i) simp_all

lemma legacy_inv_length: "legacy_inv st \<Longrightarrow> length (lg_nodes st) = lg_node_id st"
proof -
  assume "legacy_inv st"
  then have "length (map n_id (lg_nodes st)) = length (map str_nat [0 ..< lg_node_id st])"
    by (simp add: legacy_inv_def)
  then show ?thesis by simp
qed

lemma key_point_step_inv:
  "legacy_inv st \<and> section_id < lg_node_id st \<Longrightarrow>
   legacy_inv (key_point_step section_id pos st point)
     \<and> section_id < lg_node_id (key_point_step section_id pos st point)"
  unfolding legacy_inv_def key_point_step_def Let_def
  by (auto simp: ids_update level_update plain_node_def plain_link_def links_numbered_snoc
      numbered_self numbered_def
      intro: links_numbered_Suc less_SucI)

lemma key_points_inv:
  "legacy_inv st \<and> section_id < lg_node_id st \<Longrightarrow>
   legacy_inv (foldl (key_point_step section_id pos) st points)
     \<and> section_id < lg_node_id (foldl (key_point_step section_id pos) st points)"
  by (rule foldl_invariant [where P = "\<lambda>s. legacy_inv s \<and> section_id < lg_node_id s"],
      assumption, erule key_point_step_inv)

lemma section_step_inv: "legacy_inv st \<Longrightarrow> legacy_inv (section_step st isec)"
proof -
  assume inv: "legacy_inv st"
  obtain i sec where isec: "isec = (i, sec)" by (cases isec)
  let ?node = "(plain_node (str_nat (lg_node_id st))
                  (get_or (s_section_title sec) (''Section '' @ str_nat (i + 1)))
                  ''sub_topic'' 1 30 (ellipsis 200 (get_or (s_content sec) [])))
               \<lparr> n_children := Some [] \<rparr>"
  let ?st1 = "\<lparr> lg_nodes = lg_nodes st @ [?node],
      lg_links = lg_links st @ [plain_link ''0'' (str_nat (lg_node_id st)) 3],
      lg_node_id = lg_node_id st + 1 \<rparr>"
  have st1: "legacy_inv ?st1 \<and> lg_node_id st < lg_node_id ?st1"
    using inv unfolding legacy_inv_def
    by (auto simp: plain_node_def plain_link_def links_numbered_snoc numbered_self
        str_nat_0 [symmetric] numbered_0 intro: links_numbered_Suc)
  show ?thesis
    using st1 key_points_inv [OF st1]
    by (simp add: isec section_step_def Let_def)
qed

lemma legacy_sections_inv: "legacy_inv st \<Longrightarrow> legacy_inv (legacy_sections d st)"
  unfolding legacy_sections_def
  by (auto intro: foldl_invariant section_step_inv)

lemma child_step_inv:
  "legacy_inv st \<and> parent_id < lg_node_id st \<Longrightarrow>
   legacy_inv (child_step parent_id ty sz st nc)
     \<and> parent_id < lg_node_id (child_step parent_id ty sz st nc)"
  unfolding legacy_inv_def child_step_def
  by (cases nc)
     (auto simp: plain_node_def plain_link_def links_numbered_snoc numbered_self numbered_def
      intro: links_numbered_Suc less_SucI)

lemma children_inv:
  "legacy_inv st \<and> parent_id < lg_node_id st \<Longrightarrow>
   legacy_inv (foldl (child_step parent_id ty sz) st ncs)
     \<and> parent_id < lg_node_id (foldl (child_step parent_id ty sz) st ncs)"
  by (rule foldl_invariant [where P = "\<lambda>s. legacy_inv s \<and> parent_id < lg_node_id s"],
      assumption, erule child_step_inv)

lemma group_step_inv:
  "legacy_inv st \<Longrightarrow>
   legacy_inv (group_step nm ct st) \<and> lg_node_id st < lg_node_id (group_step nm ct st)"
  unfolding legacy_inv_def group_step_def
  by (auto simp: plain_node_def plain_link_def links_numbered_snoc numbered_self
      str_nat_0 [symmetric] numbered_0 intro: links_numbered_Suc)

lemma legacy_glossary_inv: "legacy_inv st \<Longrightarrow> legacy_inv (legacy_glossary d st)"
  unfolding legacy_glossary_def
  using children_inv [OF group_step_inv] by auto

lemma legacy_takeaways_inv: "legacy_inv st \<Longrightarrow> legacy_inv (legacy_takeaways d st)"
  unfolding legacy_takeaways_def
  using children_inv [OF group_step_inv] by auto

lemma legacy_build_wf: "graph_wf (legacy_build d c)"
proof -
  let ?st0 = "\<lparr> lg_nodes = [plain_node (str_nat 0)
                     (get_or (d_title d) (get_or (c_title c) ''Content''))
                     ''main_topic'' 0 40
                     (get_or (d_executive_summary d) ''Main content'')],
                  lg_links = [], lg_node_id = 1 \<rparr>"
  have "legacy_inv ?st0"
    by (simp add: legacy_inv_def plain_node_def links_numbered_def)
  then have inv: "legacy_inv (legacy_takeaways d (legacy_glossary d (legacy_sections d ?st0)))"
    by (intro legacy_takeaways_inv legacy_glossary_inv legacy_sections_inv)
  show ?thesis
    using inv legacy_inv_length [OF inv]
    by (simp add: graph_wf_def legacy_build_def Let_def legacy_inv_def)
qed

lemma simple_loop:
  "nodes \<noteq> [] \<Longrightarrow> n_level (hd nodes) = 0 \<Longrightarrow>
   map n_id nodes = map str_nat [0 ..< Suc k] \<Longrightarrow> links_numbered (Suc k) links \<Longrightarrow>
   (case foldl simple_step (nodes, links) (enumerate k ps) of (ns, ls) \<Rightarrow>
      ns \<noteq> [] \<and> n_level (hd ns) = 0 \<and>
      map n_id ns = map str_nat [0 ..< Suc (k + length ps)] \<and>
      links_numbered (Suc (k + length ps)) ls)"
proof (induction ps arbitrary: k nodes links)
  case Nil
  then show ?case by simp
next
  case (Cons p ps)
  let ?nodes = "nodes @ [plain_node (str_nat (k + 1)) (ellipsis 50 p)
                 (if k < 5 then ''sub_topic'' else ''key_point'') 1
                 (if k < 5 then 25 else 20) p]"
  let ?links = "links @ [plain_link ''0'' (str_nat (k + 1)) 2]"
  have step: "simple_step (nodes, links) (k, p) = (?nodes, ?links)"
    by (simp add: simple_step_def)
  have a: "?nodes \<noteq> []" by simp
  have b: "n_level (hd ?nodes) = 0" using Cons.prems by simp
  have c: "map n_id ?nodes = map str_nat [0 ..< Suc (Suc k)]"
    using Cons.prems by (simp add: plain_node_def)
  have d: "links_numbered (Suc (Suc k)) ?links"
    using Cons.prems
    by (auto simp: links_numbered_snoc plain_link_def numbered_self str_nat_0 [symmetric]
        numbered_0 intro: links_numbered_Suc)
  show ?case
    using Cons.IH [OF a b c d] by (simp add: step)
qed

lemma simple_wf: "graph_wf (create_simple_graph_from_text text title)"
proof -
  let ?nodes0 = "[plain_node ''0'' title ''main_topic'' 0 40 (ellipsis 200 text)]"
  have "case foldl simple_step (?nodes0, []) (enumerate 0 (take 10 (paragraphs_of text))) of
          (ns, ls) \<Rightarrow> ns \<noteq> [] \<and> n_level (hd ns) = 0 \<and>
            map n_id ns = map str_nat [0 ..< Suc (0 + length (take 10 (paragraphs_of text)))] \<and>
            links_numbered (Suc (0 + length (take 10 (paragraphs_of text)))) ls"
    by (rule simple_loop) (simp_all add: plain_node_def str_nat_0 links_numbered_def)
  then show ?thesis
    by (auto simp: graph_wf_def create_simple_graph_from_text_def Let_def
        split: prod.splits dest: arg_cong [where f = length])
qed

lemma legacy_wf: "graph_wf (generate_legacy_graph_data loads py_str content)"
  unfolding generate_legacy_graph_data_def legacy_body_def
  by (auto simp: simple_wf legacy_build_wf split: payload.splits json_parse.splits)

lemma pipeline_wf: "graph_wf (generate_graph_data model loads py_str content)"
  unfolding generate_graph_data_def graph_body_def
  by (auto simp: legacy_wf assemble_wf split: hierarchy_data.splits)

lemma graph_wf_closed: "graph_wf g \<Longrightarrow> links_closed g"
  by (simp add: graph_wf_def links_closed_def node_ids_def links_numbered_def numbered_in_ids)

lemma count_zero_upt: "0 < n \<Longrightarrow> filter (\<lambda>i. str_nat i = ''0'') [0 ..< n] = [0]"
proof -
  assume "0 < n"
  then have "[0 ..< n] = 0 # [1 ..< n]" by (simp add: upt_rec)
  moreover have "filter (\<lambda>i. str_nat i = ''0'') [1 ..< n] = []"
    by (auto simp: filter_empty_conv str_nat_eq_0)
  ultimately show ?thesis by (simp add: str_nat_0)
qed

lemma graph_wf_root:
  assumes "graph_wf g"
  shows "g_nodes g \<noteq> [] \<and> n_id (hd (g_nodes g)) = ''0'' \<and> n_level (hd (g_nodes g)) = 0
     \<and> length (filter (\<lambda>n. n_id n = ''0'') (g_nodes g)) = 1"
proof -
  have ne: "g_nodes g \<noteq> []" and lv: "n_level (hd (g_nodes g)) = 0"
    and ids: "map n_id (g_nodes g) = map str_nat [0 ..< length (g_nodes g)]"
    using assms by (simp_all add: graph_wf_def)
  have pos: "0 < length (g_nodes g)" using ne by simp
  have "n_id (hd (g_nodes g)) = hd (map n_id (g_nodes g))" using ne by (simp add: hd_map)
  also have "\<dots> = hd (map str_nat [0 ..< length (g_nodes g)])" by (simp only: ids)
  also have "\<dots> = ''0''" using pos by (simp add: hd_map upt_rec str_nat_0)
  finally have h: "n_id (hd (g_nodes g)) = ''0''" .
  have "length (filter (\<lambda>n. n_id n = ''0'') (g_nodes g))
        = length (filter (\<lambda>s. s = ''0'') (map n_id (g_nodes g)))"
    by (simp add: filter_map comp_def)
  also have "\<dots> = length (filter (\<lambda>s. s = ''0'') (map str_nat [0 ..< length (g_nodes g)]))"
    by (simp only: ids)
  also have "\<dots> = length (filter (\<lambda>i. str_nat i = ''0'') [0 ..< length (g_nodes g)])"
    by (simp add: filter_map comp_def)
  also have "\<dots> = 1" using pos by (simp add: count_zero_upt)
  finally show ?thesis using ne lv h by simp
qed

section \<open>The assembly as one pass over the nodes\<close>

lemma process_nodes_pairs:
  "foldl (process_node lv) st nds = foldl process_pair st (map (Pair lv) nds)"
  by (induction nds arbitrary: st) (simp_all add: process_pair_def)

lemma process_level_pairs: "process_level st l = foldl process_pair st (level_nodes l)"
  by (simp add: process_level_def level_nodes_def process_nodes_pairs)

lemma process_levels_pairs:
  "foldl process_level st ls = foldl process_pair st (concat (map level_nodes ls))"
  by (induction ls arbitrary: st) (simp_all add: process_level_pairs)

lemma asm_levels_pairs:
  "asm_levels h c = foldl process_pair (asm_init h c) (hierarchy_nodes h)"
  by (simp add: asm_levels_def hierarchy_nodes_def process_levels_pairs)

lemma pairs_counter:
  "a_node_counter (foldl process_pair st ps) = a_node_counter st + length ps"
  by (induction ps arbitrary: st) (simp_all add: process_pair_def process_node_def Let_def)

lemma pairs_nodes:
  "a_nodes (foldl process_pair st ps) =
     a_nodes st @ map (\<lambda>ip. concept_node (fst (snd ip)) (fst ip) (snd (snd ip)))
                      (enumerate (a_node_counter st) ps)"
  by (induction ps arbitrary: st) (simp_all add: process_pair_def process_node_def Let_def)


lemma rel_nodes: "a_nodes (foldl process_relationship st rs) = a_nodes st"
  by (induction rs arbitrary: st)
     (simp_all add: process_relationship_def split: option.splits)

lemma rel_map: "a_node_id_map (foldl process_relationship st rs) = a_node_id_map st"
  by (induction rs arbitrary: st)
     (simp_all add: process_relationship_def split: option.splits)

lemma rel_step_links:
  "a_links (process_relationship st r) = a_links st @ emitted (a_node_id_map st) r"
  by (simp add: process_relationship_def emitted_def split: option.splits)

lemma rel_step_map: "a_node_id_map (process_relationship st r) = a_node_id_map st"
  by (simp add: process_relationship_def split: option.splits)

lemma rel_links:
  "a_links (foldl process_relationship st rs) =
     a_links st @ concat (map (emitted (a_node_id_map st)) rs)"
  by (induction rs arbitrary: st) (simp_all add: rel_step_links rel_step_map)

lemma asm_levels_nodes:
  "a_nodes (asm_levels h c) =
     main_node (get_or (h_main_topic h) no_main_topic) c #
     map (\<lambda>ip. concept_node (fst (snd ip)) (fst ip) (snd (snd ip)))
         (enumerate 1 (hierarchy_nodes h))"
  by (simp add: asm_levels_pairs pairs_nodes asm_init_def)


lemma asm_relationships_nodes: "a_nodes (asm_relationships h c) = a_nodes (asm_levels h c)"
  by (simp add: asm_relationships_def rel_nodes)

lemma asm_relationships_links:
  "a_links (asm_relationships h c) =
     a_links (asm_levels h c) @
     concat (map (emitted (a_node_id_map (asm_levels h c))) (get_or (h_relationships h) []))"
  by (simp add: asm_relationships_def rel_links)

lemma root_only: "length (a_nodes (asm_relationships h c)) = 1 \<longleftrightarrow> hierarchy_nodes h = []"
  by (simp add: asm_relationships_nodes asm_levels_nodes)

lemma root_only_Suc:
  "length (a_nodes (asm_relationships h c)) = Suc 0 \<longleftrightarrow> hierarchy_nodes h = []"
  using root_only [of h c] by simp

lemma assemble_nodes_eq:
  "g_nodes (assemble h c) =
     main_node (get_or (h_main_topic h) no_main_topic) c #
     (if hierarchy_nodes h = [] then basic_nodes
      else map (\<lambda>ip. concept_node (fst (snd ip)) (fst ip) (snd (snd ip)))
               (enumerate 1 (hierarchy_nodes h)))"
  by (simp add: assemble_nodes root_only root_only_Suc asm_relationships_nodes asm_levels_nodes)

lemma assemble_links_eq:
  "g_links (assemble h c) =
     a_links (asm_levels h c) @
     concat (map (emitted (a_node_id_map (asm_levels h c))) (get_or (h_relationships h) [])) @
     (if hierarchy_nodes h = [] then basic_links else [])"
  by (simp add: assemble_links root_only root_only_Suc asm_relationships_links)

lemma map_values_nonempty:
  "a_node_id_map (asm_levels h c) k = Some v \<Longrightarrow> v \<noteq> []"
proof -
  assume a: "a_node_id_map (asm_levels h c) k = Some v"
  have "numbered (a_node_counter (asm_levels h c)) v"
    using asm_inv_levels [of h c] a by (simp add: asm_inv_def)
  then obtain i where "v = str_nat i" by (auto simp: numbered_def)
  then show ?thesis using str_nat_nonempty by simp
qed

lemma fallback_text:
  "create_enhanced_fallback_hierarchy content =
     (case fallback_body content of Inr h \<Rightarrow> h | Inl e \<Rightarrow> minimal_hierarchy)"
  by (simp add: create_enhanced_fallback_hierarchy_def try_fallback_def)

lemma fallback_no_error: "h_error (create_enhanced_fallback_hierarchy content) = None"
  by (simp add: create_enhanced_fallback_hierarchy_def try_fallback_def fallback_body_def
      Let_def)

lemma pipeline_no_model:
  "generate_graph_data None loads py_str content =
     assemble (create_enhanced_fallback_hierarchy (c_content content)) content"
  by (simp add: generate_graph_data_def graph_body_def
      generate_hierarchical_graph_structure_def fallback_no_error)

lemma fallback_levels:
  "h_hierarchy_levels (create_enhanced_fallback_hierarchy content) = Some (
     (if main_concepts_of (text_of content) \<noteq> []
      then [\<lparr> hl_level = Some 1, hl_title = Some ''Main Concepts'',
              hl_nodes = Some (map level_1_node
                 (enumerate 0 (main_concepts_of (text_of content)))) \<rparr>]
      else []) @
     (if sub_concepts_of (text_of content) \<noteq> []
      then [\<lparr> hl_level = Some 2, hl_title = Some ''Supporting Details'',
              hl_nodes = Some (map level_2_node
                 (enumerate 0 (sub_concepts_of (text_of content)))) \<rparr>]
      else []))"
  by (simp add: create_enhanced_fallback_hierarchy_def try_fallback_def fallback_body_def
      Let_def text_of_def)

lemma fallback_nodes:
  "hierarchy_nodes (create_enhanced_fallback_hierarchy content) =
     map (\<lambda>ic. (1, level_1_node ic)) (enumerate 0 (main_concepts_of (text_of content))) @
     map (\<lambda>ic. (2, level_2_node ic)) (enumerate 0 (sub_concepts_of (text_of content)))"
  by (simp add: hierarchy_nodes_def fallback_levels level_nodes_def get_or_def comp_def)

section \<open>Tables, positions of nodes and the fallback hierarchy\<close>





lemma assemble_node_nth:
  assumes "k < length (hierarchy_nodes h)"
  shows "g_nodes (assemble h c) ! (k + 1) =
           concept_node (fst (hierarchy_nodes h ! k)) (k + 1) (snd (hierarchy_nodes h ! k))"
proof -
  have ne: "hierarchy_nodes h \<noteq> []" using assms by auto
  show ?thesis using assms
    by (simp add: assemble_nodes_eq ne nth_enumerate_eq)
qed




lemma assemble_nodes_length:
  "length (g_nodes (assemble h c)) =
     (if length (hierarchy_nodes h) = 0 then 3 else length (hierarchy_nodes h) + 1)"
  by (simp add: assemble_nodes_eq basic_nodes_def)

lemma fallback_nodes_length:
  "length (hierarchy_nodes (create_enhanced_fallback_hierarchy content)) =
     length (main_concepts_of (text_of content)) + length (sub_concepts_of (text_of content))"
  by (simp add: fallback_nodes)

lemma pairs_map_unchanged:
  "(\<forall>i < length ps. node_key (a_node_counter st + i) (snd (ps ! i)) \<noteq> k) \<Longrightarrow>
   a_node_id_map (foldl process_pair st ps) k = a_node_id_map st k"
proof (induction ps arbitrary: st)
  case Nil
  then show ?case by simp
next
  case (Cons p ps)
  have c: "a_node_counter (process_pair st p) = Suc (a_node_counter st)"
    by (simp add: process_pair_def process_node_def Let_def)
  have k0: "node_key (a_node_counter st) (snd p) \<noteq> k"
    using Cons.prems by auto
  have rest: "\<forall>i < length ps. node_key (a_node_counter (process_pair st p) + i) (snd (ps ! i)) \<noteq> k"
  proof (intro allI impI)
    fix i assume "i < length ps"
    then have "node_key (a_node_counter st + Suc i) (snd ((p # ps) ! Suc i)) \<noteq> k"
      using Cons.prems by (metis Suc_less_eq length_Cons)
    then show "node_key (a_node_counter (process_pair st p) + i) (snd (ps ! i)) \<noteq> k"
      by (simp add: c)
  qed
  have "a_node_id_map (process_pair st p) k = a_node_id_map st k"
    using k0 by (simp add: process_pair_def process_node_def Let_def)
  with Cons.IH [OF rest] show ?case by simp
qed

lemma emitted_mem:
  assumes "rel \<in> set (get_or (h_relationships h) [])"
    and "l \<in> set (emitted (a_node_id_map (asm_levels h c)) rel)"
  shows "l \<in> set (g_links (assemble h c))"
  using assms by (auto simp: assemble_links_eq)

lemma sentences_eq:
  "sentences_of t = map strip (filter (\<lambda>s. length (strip s) > 20) (split_char CHR ''.'' t))"
proof -
  have "(\<lambda>s. strip s \<noteq> [] \<and> length (strip s) > 20) = (\<lambda>s. length (strip s) > 20)"
    by auto
  then show ?thesis by (simp add: sentences_of_def)
qed

lemma paragraphs_eq:
  "paragraphs_of t = filter (\<lambda>p. p \<noteq> []) (map strip (split_blank t))"
  by (simp add: paragraphs_of_def filter_map comp_def)

lemma some_snd_enumerate: "map (\<lambda>x. Some (snd x)) (enumerate n xs) = map Some xs"
  by (induction xs arbitrary: n) simp_all

lemma descriptions_1: "map (hn_description \<circ> level_1_node) (enumerate 0 xs) = map Some xs"
  by (simp add: level_1_node_def comp_def split_def some_snd_enumerate)

lemma descriptions_2: "map (hn_description \<circ> level_2_node) (enumerate 0 xs) = map Some xs"
  by (simp add: level_2_node_def comp_def split_def some_snd_enumerate)

lemma fallback_relationships:
  "h_relationships (create_enhanced_fallback_hierarchy content) =
     Some (map fallback_relationship
       [0 ..< min (length (main_concepts_of (text_of content)))
                  (length (sub_concepts_of (text_of content)))])"
  by (cases "main_concepts_of (text_of content)"; cases "sub_concepts_of (text_of content)")
     (simp_all add: create_enhanced_fallback_hierarchy_def try_fallback_def fallback_body_def
      Let_def text_of_def)

lemma fallback_level_1_nodes:
  assumes "main_concepts_of t \<noteq> []"
  shows "get_or (hl_nodes (hd (get_or (h_hierarchy_levels
            (create_enhanced_fallback_hierarchy (Text t))) []))) []
         = map level_1_node (enumerate 0 (main_concepts_of t))"
  using assms by (simp add: fallback_levels text_of_def get_or_def)

lemma layered_nodes:
  "hierarchy_nodes layered =
     [(1, \<lparr> hn_id = Some ''a'', hn_title = Some ''Alpha'', hn_description = None,
                 hn_type = Some ''principle'', hn_importance = Some ''high'',
                 hn_prerequisites = None, hn_examples = None, hn_applications = None \<rparr>),
      (2, \<lparr> hn_id = Some ''b'', hn_title = Some ''Beta'', hn_description = None,
                 hn_type = Some ''theorem'', hn_importance = Some ''low'',
                 hn_prerequisites = None, hn_examples = None, hn_applications = None \<rparr>),
      (7, \<lparr> hn_id = None, hn_title = Some ''Gamma'', hn_description = None,
                 hn_type = Some ''theorem'', hn_importance = None,
                 hn_prerequisites = None, hn_examples = None, hn_applications = None \<rparr>)]"
  by (simp add: hierarchy_nodes_def level_nodes_def layered_def get_or_def)

section \<open>The claims\<close>

text \<open>
  C1. For every content record whose content is a string, whatever the backend does,
  the pipeline \<open>generate_graph_data\<close> (with its fall through
  \<open>generate_legacy_graph_data\<close> to \<open>create_simple_graph_from_text\<close>) returns a graph
  whose list of nodes is not empty, whose first node has id "0" and level 0, and in which
  exactly one node has id "0".
\<close>

theorem pipeline_root_node:
  "let g = generate_graph_data model loads py_str \<lparr>c_title = title, c_content = Text s\<rparr>
   in g_nodes g \<noteq> [] \<and> n_id (hd (g_nodes g)) = ''0'' \<and> n_level (hd (g_nodes g)) = 0
      \<and> length (filter (\<lambda>n. n_id n = ''0'') (g_nodes g)) = 1"
  unfolding Let_def by (rule graph_wf_root) (rule pipeline_wf)

theorem pipeline_root_node_witness:
  "let g = generate_graph_data (Some IllTyped) (\<lambda>s. NonObject) (\<lambda>d. [])
             \<lparr>c_title = Some ''T'', c_content = Text ''[1, 2]''\<rparr>
   in g_nodes g \<noteq> [] \<and> n_id (hd (g_nodes g)) = ''0'' \<and> n_level (hd (g_nodes g)) = 0
      \<and> length (filter (\<lambda>n. n_id n = ''0'') (g_nodes g)) = 1"
  by (rule pipeline_root_node)

text \<open>
  C2. In every graph that one of the three builders makes (the assembly of a hierarchy,
  the legacy builder on a structured document, the simple builder on a text), the
  source and the target of every link are ids of nodes of the same graph.
\<close>

theorem builders_links_closed:
  "links_closed (assemble h c) \<and> links_closed (legacy_build d c)
     \<and> links_closed (create_simple_graph_from_text text title)"
  by (simp add: graph_wf_closed assemble_wf legacy_build_wf simple_wf)

theorem builders_links_closed_witness:
  "links_closed (assemble photosynthesis untitled)
     \<and> map l_source (g_links (assemble photosynthesis untitled)) = [''0'', ''0'', ''1'', ''0'']
     \<and> map l_target (g_links (assemble photosynthesis untitled)) = [''1'', ''2'', ''2'', ''2'']
     \<and> node_ids (assemble photosynthesis untitled) = [''0'', ''1'', ''2'']"
proof -
  have a: "map l_source (g_links (assemble photosynthesis untitled)) = [''0'', ''0'', ''1'', ''0'']"
    by code_simp
  have b: "map l_target (g_links (assemble photosynthesis untitled)) = [''1'', ''2'', ''2'', ''2'']"
    by code_simp
  have c: "node_ids (assemble photosynthesis untitled) = [''0'', ''1'', ''2'']"
    by code_simp
  from builders_links_closed [of photosynthesis untitled] a b c show ?thesis by simp
qed

text \<open>
  C3 (amended). When the AI backend is not configured (the model is \<open>None\<close>), the graph
  of a text has three nodes if the fallback hierarchy of the text has no node, and
  otherwise the root and one node for each node of the fallback hierarchy; so it has at
  least two nodes for every text, and at least three unless the fallback hierarchy has
  exactly one node. The two basic nodes are added only to a graph of the root alone.
\<close>

theorem no_model_node_count:
  "let g = generate_graph_data None loads py_str \<lparr>c_title = title, c_content = Text s\<rparr>;
       k = length (main_concepts_of s) + length (sub_concepts_of s)
   in length (g_nodes g) = (if k = 0 then 3 else k + 1) \<and> 2 \<le> length (g_nodes g)"
  unfolding Let_def pipeline_no_model assemble_nodes_length fallback_nodes_length
  by (cases "main_concepts_of s"; cases "sub_concepts_of s") (simp_all add: text_of_def)

theorem no_model_node_count_witness:
  "let g = generate_graph_data None no_json no_str untitled;
       k = length (main_concepts_of ''A. B. C.'') + length (sub_concepts_of ''A. B. C.'')
   in length (g_nodes g) = (if k = 0 then 3 else k + 1) \<and> 2 \<le> length (g_nodes g)"
  unfolding untitled_def by (rule no_model_node_count)

text \<open>The claim as stated fails on the text "A. B. C.": the graph has two nodes.\<close>

theorem no_model_two_nodes:
  "\<not> 3 \<le> length (g_nodes (generate_graph_data None no_json no_str untitled))"
  by code_simp

text \<open>
  C4 (amended). When the backend's hierarchy is rejected (empty \<open>hierarchy_levels\<close>) and
  the fallback builder runs on the text "A. B. C.", there is no sentence, the only
  paragraph is "A. B. C.", the fallback hierarchy has one level-1 node \<open>main_0\<close>, and
  the graph has exactly two nodes (the root and that node) and exactly one link (the
  hierarchy link from the root): the basic nodes are not added, since the graph is not
  the root alone.
\<close>

theorem empty_reply_scenario:
  "sentences_of ''A. B. C.'' = [] \<and> paragraphs_of ''A. B. C.'' = [''A. B. C.'']
   \<and> map (\<lambda>l. (hl_level l, map hn_id (get_or (hl_nodes l) [])))
         (get_or (h_hierarchy_levels (create_enhanced_fallback_hierarchy (Text ''A. B. C.''))) [])
       = [(Some 1, [Some ''main_0''])]
   \<and> map n_id (g_nodes (generate_graph_data (Some (Parsed empty_levels_reply))
                         no_json no_str untitled)) = [''0'', ''1'']
   \<and> g_links (generate_graph_data (Some (Parsed empty_levels_reply))
                         no_json no_str untitled)
       = [\<lparr> l_source = ''0'', l_target = ''1'', l_value = 3, l_type = Some ''hierarchy'',
            l_description = None \<rparr>]"
  by code_simp

theorem empty_reply_scenario_witness:
  "length (g_nodes (generate_graph_data (Some (Parsed empty_levels_reply))
                         no_json no_str untitled)) = 2
   \<and> length (g_links (generate_graph_data (Some (Parsed empty_levels_reply))
                         no_json no_str untitled)) = 1"
proof -
  from empty_reply_scenario
  have a: "map n_id (g_nodes (generate_graph_data (Some (Parsed empty_levels_reply))
                         no_json no_str untitled)) = [''0'', ''1'']"
    and b: "g_links (generate_graph_data (Some (Parsed empty_levels_reply))
                         no_json no_str untitled)
       = [\<lparr> l_source = ''0'', l_target = ''1'', l_value = 3, l_type = Some ''hierarchy'',
            l_description = None \<rparr>]"
    by simp_all
  from a have "length (map n_id (g_nodes (generate_graph_data (Some (Parsed empty_levels_reply))
                         no_json no_str untitled))) = length [''0'', ''1'']"
    by (rule arg_cong)
  then show ?thesis using b by simp
qed

text \<open>The claim as stated (three nodes and three links) fails.\<close>

theorem empty_reply_scenario_counterexample:
  "\<not> (length (g_nodes (generate_graph_data (Some (Parsed empty_levels_reply))
                         no_json no_str untitled)) = 3
      \<and> length (g_links (generate_graph_data (Some (Parsed empty_levels_reply))
                         no_json no_str untitled)) = 3)"
  by code_simp





text \<open>
  C7. The i-th level-1 node of the fallback hierarchy of a text has id "main_i", type
  "concept", importance "high" for i < 2 and "medium" otherwise, and the source sentence
  as its description, which is the content of the graph node made from it; the title is
  the name of that graph node, and for a sentence of more than 60 characters it is the
  first 60 characters followed by "...", 63 characters long.
\<close>

theorem fallback_title_truncation:
  assumes "i < length (main_concepts_of t)"
  shows "let concept = main_concepts_of t ! i;
             h = create_enhanced_fallback_hierarchy (Text t);
             nd = get_or (hl_nodes (hd (get_or (h_hierarchy_levels h) []))) [] ! i;
             g = generate_graph_data None loads py_str \<lparr>c_title = title, c_content = Text t\<rparr>;
             n = g_nodes g ! (i + 1)
         in hn_id nd = Some (''main_'' @ str_nat i) \<and> hn_type nd = Some ''concept''
            \<and> hn_importance nd = Some (if i < 2 then ''high'' else ''medium'')
            \<and> hn_description nd = Some concept \<and> n_content n = concept
            \<and> hn_title nd = Some (n_name n)
            \<and> (length concept > 60 \<longrightarrow>
                 n_name n = take 60 concept @ ''...'' \<and> length (n_name n) = 63)"
proof -
  have ne: "main_concepts_of t \<noteq> []" using assms by auto
  have nd: "get_or (hl_nodes (hd (get_or (h_hierarchy_levels
              (create_enhanced_fallback_hierarchy (Text t))) []))) [] ! i
            = level_1_node (i, main_concepts_of t ! i)"
    using assms by (simp add: fallback_level_1_nodes [OF ne] nth_enumerate_eq)
  have k: "i < length (hierarchy_nodes (create_enhanced_fallback_hierarchy (Text t)))"
    using assms by (simp add: fallback_nodes text_of_def)
  have p: "hierarchy_nodes (create_enhanced_fallback_hierarchy (Text t)) ! i
           = (1, level_1_node (i, main_concepts_of t ! i))"
    using assms by (simp add: fallback_nodes text_of_def nth_append nth_enumerate_eq)
  have n: "g_nodes (generate_graph_data None loads py_str \<lparr>c_title = title, c_content = Text t\<rparr>)
              ! (i + 1)
           = concept_node 1 (i + 1) (level_1_node (i, main_concepts_of t ! i))"
    using assemble_node_nth [OF k] by (simp add: pipeline_no_model p)
  show ?thesis
    unfolding Let_def nd n
    by (simp add: level_1_node_def concept_node_def Let_def get_or_def ellipsis_def)
qed

theorem fallback_title_truncation_witness:
  "0 < length (main_concepts_of long_text)
   \<and> length (main_concepts_of long_text ! 0) = 200
   \<and> n_content (g_nodes (generate_graph_data None no_json no_str
                  \<lparr>c_title = None, c_content = Text long_text\<rparr>) ! 1) = long_text
   \<and> n_name (g_nodes (generate_graph_data None no_json no_str
                  \<lparr>c_title = None, c_content = Text long_text\<rparr>) ! 1)
       = replicate 60 (CHR ''x'') @ ''...''"
proof -
  have a: "0 < length (main_concepts_of long_text)" by code_simp
  have b: "main_concepts_of long_text ! 0 = long_text" by code_simp
  have c: "length long_text = 200" by (simp add: long_text_def)
  have d: "take 60 long_text = replicate 60 (CHR ''x'')" by (simp add: long_text_def)
  from fallback_title_truncation [OF a, of no_json no_str None] a b c d
  show ?thesis by (simp add: Let_def)
qed

text \<open>
  C8. With the sentences being the trimmed "."-split fragments of trimmed length above
  20 and the paragraphs the non-empty trimmed blank-line-split fragments, the level-1
  nodes of the fallback hierarchy are made of the first 4 sentences when there are at
  least 4 sentences and of the first 4 paragraphs otherwise, the level-2 nodes of
  sentences[4:8] when there are at least 8 sentences, else of paragraphs[4:8] when there
  are at least 8 paragraphs, else there is no level 2; and there is one "related"
  relationship main_i to sub_i of strength "medium" for each i below the minimum of the
  two lengths.
\<close>

theorem fallback_sources:
  "let sentences = map strip (filter (\<lambda>s. length (strip s) > 20) (split_char CHR ''.'' t));
       paragraphs = filter (\<lambda>p. p \<noteq> []) (map strip (split_blank t));
       level1 = (if length sentences \<ge> 4 then take 4 sentences else take 4 paragraphs);
       level2 = (if length sentences \<ge> 8 then take 4 (drop 4 sentences)
                 else if length paragraphs \<ge> 8 then take 4 (drop 4 paragraphs) else []);
       h = create_enhanced_fallback_hierarchy (Text t)
   in map (\<lambda>l. (hl_level l, map hn_description (get_or (hl_nodes l) [])))
          (get_or (h_hierarchy_levels h) [])
        = (if level1 = [] then [] else [(Some 1, map Some level1)]) @
          (if level2 = [] then [] else [(Some 2, map Some level2)])
      \<and> h_relationships h = Some (map (\<lambda>i.
            \<lparr> r_source = Some (''main_'' @ str_nat i), r_target = Some (''sub_'' @ str_nat i),
              r_relationship_type = Some ''related'', r_strength = Some ''medium'',
              r_description = None \<rparr>) [0 ..< min (length level1) (length level2)])"
proof -
  have m: "main_concepts_of t =
      (if length (map strip (filter (\<lambda>s. length (strip s) > 20) (split_char CHR ''.'' t))) \<ge> 4
       then take 4 (map strip (filter (\<lambda>s. length (strip s) > 20) (split_char CHR ''.'' t)))
       else take 4 (filter (\<lambda>p. p \<noteq> []) (map strip (split_blank t))))"
    by (simp only: main_concepts_of_def sentences_eq paragraphs_eq)
  have s: "sub_concepts_of t =
      (if length (map strip (filter (\<lambda>s. length (strip s) > 20) (split_char CHR ''.'' t))) \<ge> 8
       then take 4 (drop 4 (map strip (filter (\<lambda>s. length (strip s) > 20) (split_char CHR ''.'' t))))
       else if length (filter (\<lambda>p. p \<noteq> []) (map strip (split_blank t))) \<ge> 8
       then take 4 (drop 4 (filter (\<lambda>p. p \<noteq> []) (map strip (split_blank t)))) else [])"
    by (simp add: sub_concepts_of_def sentences_eq paragraphs_eq slice_def)
  have lv: "map (\<lambda>l. (hl_level l, map hn_description (get_or (hl_nodes l) [])))
          (get_or (h_hierarchy_levels (create_enhanced_fallback_hierarchy (Text t))) [])
        = (if main_concepts_of t = [] then [] else [(Some 1, map Some (main_concepts_of t))]) @
          (if sub_concepts_of t = [] then [] else [(Some 2, map Some (sub_concepts_of t))])"
    by (simp add: fallback_levels text_of_def get_or_def descriptions_1 descriptions_2)
  have rl: "h_relationships (create_enhanced_fallback_hierarchy (Text t)) = Some (map (\<lambda>i.
            \<lparr> r_source = Some (''main_'' @ str_nat i), r_target = Some (''sub_'' @ str_nat i),
              r_relationship_type = Some ''related'', r_strength = Some ''medium'',
              r_description = None \<rparr>)
            [0 ..< min (length (main_concepts_of t)) (length (sub_concepts_of t))])"
    by (simp add: fallback_relationships text_of_def fallback_relationship_def [abs_def])
  show ?thesis
    unfolding Let_def using lv rl unfolding m s by simp
qed

theorem fallback_sources_witness:
  "map (\<lambda>l. (hl_level l, map hn_description (get_or (hl_nodes l) [])))
      (get_or (h_hierarchy_levels (create_enhanced_fallback_hierarchy (Text eight_sentences))) [])
    = [(Some 1, [Some ''Sentence number one is here'', Some ''Sentence number two is here'',
                 Some ''Sentence number three is here'', Some ''Sentence number four is here'']),
       (Some 2, [Some ''Sentence number five is here'', Some ''Sentence number six is here'',
                 Some ''Sentence number seven is here'', Some ''Sentence number eight is here''])]
   \<and> length (get_or (h_relationships (create_enhanced_fallback_hierarchy
                (Text eight_sentences))) []) = 4"
proof -
  have S: "map strip (filter (\<lambda>s. length (strip s) > 20) (split_char CHR ''.'' eight_sentences))
      = [''Sentence number one is here'', ''Sentence number two is here'',
         ''Sentence number three is here'', ''Sentence number four is here'',
         ''Sentence number five is here'', ''Sentence number six is here'',
         ''Sentence number seven is here'', ''Sentence number eight is here'']"
    by code_simp
  note t = fallback_sources [of eight_sentences, unfolded Let_def S]
  from t show ?thesis by (simp add: get_or_def)
qed

text \<open>
  C9. The fallback hierarchy builder returns a hierarchy on every input, a text or a
  structured document: the body of its \<open>try\<close> block returns one and that is the result;
  and on any exception of the body the result is the minimal hierarchy, which has one
  level with one node (id "main_topic", type "concept", importance "high") and no
  relationship.
\<close>

theorem fallback_never_fails:
  "(\<exists>h. fallback_body content = Inr h \<and> create_enhanced_fallback_hierarchy content = h)
   \<and> try_fallback (Inl e) = minimal_hierarchy
   \<and> (\<exists>lv nd. h_hierarchy_levels minimal_hierarchy = Some [lv] \<and> hl_nodes lv = Some [nd]
         \<and> hn_id nd = Some ''main_topic'' \<and> hn_type nd = Some ''concept''
         \<and> hn_importance nd = Some ''high'')
   \<and> h_relationships minimal_hierarchy = Some []"
  by (simp add: create_enhanced_fallback_hierarchy_def try_fallback_def fallback_body_def
      Let_def minimal_hierarchy_def)

theorem fallback_never_fails_witness:
  "fallback_body (Text ''A. B. C.'') = Inr (create_enhanced_fallback_hierarchy (Text ''A. B. C.''))
   \<and> try_fallback (Inl TypeError) = minimal_hierarchy"
  using fallback_never_fails [of "Text ''A. B. C.''" TypeError] by auto

text \<open>
  C10. The id map starts with the key "main" bound to the root id "0", before any node
  is processed. When no node of the hierarchy enters the map under the key "main", the
  key is still bound to "0" after the levels, and a relationship whose source (or
  target) is "main" and whose other end resolves to another id gives a link from (or
  to) the root.
\<close>

theorem main_key_is_root:
  assumes "\<forall>k < length (hierarchy_nodes h). node_key (k + 1) (snd (hierarchy_nodes h ! k)) \<noteq> ''main''"
  shows "a_node_id_map (asm_init h c) ''main'' = Some ''0''
     \<and> a_node_id_map (asm_levels h c) ''main'' = Some ''0''
     \<and> (\<forall>rel \<in> set (get_or (h_relationships h) []). \<forall>t.
          r_source rel = Some ''main''
          \<and> a_node_id_map (asm_levels h c) (get_or (r_target rel) []) = Some t \<and> t \<noteq> ''0''
          \<longrightarrow> (\<exists>l \<in> set (g_links (assemble h c)). l_source l = ''0'' \<and> l_target l = t))
     \<and> (\<forall>rel \<in> set (get_or (h_relationships h) []). \<forall>s.
          r_target rel = Some ''main''
          \<and> a_node_id_map (asm_levels h c) (get_or (r_source rel) []) = Some s \<and> s \<noteq> ''0''
          \<longrightarrow> (\<exists>l \<in> set (g_links (assemble h c)). l_source l = s \<and> l_target l = ''0''))"
proof -
  have init: "a_node_id_map (asm_init h c) ''main'' = Some ''0''"
    by (simp add: asm_init_def)
  have "\<forall>i < length (hierarchy_nodes h).
          node_key (a_node_counter (asm_init h c) + i) (snd (hierarchy_nodes h ! i)) \<noteq> ''main''"
    using assms by (simp add: asm_init_def add.commute)
  then have lv: "a_node_id_map (asm_levels h c) ''main'' = Some ''0''"
    unfolding asm_levels_pairs by (simp add: pairs_map_unchanged init)
  have src: "\<exists>l \<in> set (g_links (assemble h c)). l_source l = ''0'' \<and> l_target l = t"
    if "rel \<in> set (get_or (h_relationships h) [])" "r_source rel = Some ''main''"
       "a_node_id_map (asm_levels h c) (get_or (r_target rel) []) = Some t" "t \<noteq> ''0''"
    for rel t
  proof -
    have "t \<noteq> []" using that(3) by (rule map_values_nonempty)
    then have "relationship_link ''0'' t rel \<in> set (emitted (a_node_id_map (asm_levels h c)) rel)"
      using that lv by (auto simp: emitted_def get_or_def)
    then have "relationship_link ''0'' t rel \<in> set (g_links (assemble h c))"
      using that(1) by (auto intro: emitted_mem)
    then show ?thesis by (rule bexI [rotated]) (simp add: relationship_link_def)
  qed
  have tgt: "\<exists>l \<in> set (g_links (assemble h c)). l_source l = s \<and> l_target l = ''0''"
    if "rel \<in> set (get_or (h_relationships h) [])" "r_target rel = Some ''main''"
       "a_node_id_map (asm_levels h c) (get_or (r_source rel) []) = Some s" "s \<noteq> ''0''"
    for rel s
  proof -
    have "s \<noteq> []" using that(3) by (rule map_values_nonempty)
    then have "relationship_link s ''0'' rel \<in> set (emitted (a_node_id_map (asm_levels h c)) rel)"
      using that lv by (auto simp: emitted_def get_or_def)
    then have "relationship_link s ''0'' rel \<in> set (g_links (assemble h c))"
      using that(1) by (auto intro: emitted_mem)
    then show ?thesis by (rule bexI [rotated]) (simp add: relationship_link_def)
  qed
  show ?thesis using init lv src tgt by blast
qed

theorem main_key_is_root_witness:
  "a_node_id_map (asm_levels layered untitled) ''main'' = Some ''0''
   \<and> (\<exists>l \<in> set (g_links (assemble layered untitled)). l_source l = ''0'' \<and> l_target l = ''2'')
   \<and> map l_target (a_links (asm_levels layered untitled)) = [''1'']"
proof -
  have len: "length (hierarchy_nodes layered) = 3" by (simp add: layered_nodes)
  have f0: "node_key (0 + 1) (snd (hierarchy_nodes layered ! 0)) \<noteq> ''main''" by code_simp
  have f1: "node_key (1 + 1) (snd (hierarchy_nodes layered ! 1)) \<noteq> ''main''" by code_simp
  have f2: "node_key (2 + 1) (snd (hierarchy_nodes layered ! 2)) \<noteq> ''main''" by code_simp
  have h: "\<forall>k < length (hierarchy_nodes layered).
             node_key (k + 1) (snd (hierarchy_nodes layered ! k)) \<noteq> ''main''"
  proof (intro allI impI)
    fix k assume "k < length (hierarchy_nodes layered)"
    then have "k = 0 \<or> k = 1 \<or> k = 2" unfolding len by arith
    then show "node_key (k + 1) (snd (hierarchy_nodes layered ! k)) \<noteq> ''main''"
      using f0 f1 f2 by (elim disjE) (simp_all only: not_False_eq_True)
  qed
  note t = main_key_is_root [OF h, of untitled]
  have r: "\<lparr> r_source = Some ''main'', r_target = Some ''b'',
            r_relationship_type = Some ''contains'', r_strength = Some ''weak'',
            r_description = None \<rparr> \<in> set (get_or (h_relationships layered) [])"
    by (simp add: layered_def get_or_def)
  have b: "a_node_id_map (asm_levels layered untitled) ''b'' = Some ''2''" by code_simp
  have ne: "''2'' \<noteq> ''0''" by simp
  have lv: "map l_target (a_links (asm_levels layered untitled)) = [''1'']" by code_simp
  note src = t [THEN conjunct2, THEN conjunct2, THEN conjunct1, rule_format, OF r, of "''2''"]
  have "\<exists>l \<in> set (g_links (assemble layered untitled)). l_source l = ''0'' \<and> l_target l = ''2''"
    by (rule src) (simp add: get_or_def b)
  with t lv show ?thesis by blast
qed

end
